theory Spec2Isabelle
  imports Main
begin

section \<open>Python values and strings\<close>

text \<open>
  A Python string is written as an Isabelle string, the bytes of its UTF-8 form: equality
  and the search for a part agree on the two forms.

  \<open>pyval\<close> holds the values that \<open>json.loads\<close> puts into the dictionary handed to
  \<open>execute_query\<close>, as far as they are modelled: \<open>None\<close>, booleans, integers and strings.
  \<open>json.loads\<close> accepts no integer longer than the interpreter's digit limit, so \<open>str\<close>
  returns on every integer that arrives this way. JSON floats, arrays and objects are left
  out: their \<open>str()\<close> is not modelled.
\<close>

datatype pyval = PNone | PBool bool | PInt int | PStr string

text \<open>Decimal rendering of an integer, as \<open>str(n)\<close> prints it.\<close>

definition digit_char :: "nat \<Rightarrow> char" where
  "digit_char d = ''0123456789'' ! d"

function str_nat :: "nat \<Rightarrow> string" where
  "str_nat n = (if n < 10 then [digit_char n] else str_nat (n div 10) @ [digit_char (n mod 10)])"
  by pat_completeness auto
termination
  by (relation "measure (\<lambda>n. n)") auto

declare str_nat.simps [simp del]

definition str_int :: "int \<Rightarrow> string" where
  "str_int i = (if i < 0 then CHR ''-'' # str_nat (nat (- i)) else str_nat (nat i))"

text \<open>Python's \<open>str(v)\<close>.\<close>

fun py_str :: "pyval \<Rightarrow> string" where
  "py_str PNone = ''None''"
| "py_str (PBool b) = (if b then ''True'' else ''False'')"
| "py_str (PInt i) = str_int i"
| "py_str (PStr s) = s"

text \<open>
  \<open>str.upper()\<close> is the interpreter's upper-casing of Unicode text (it moves every
  letter that has an upper-case form, and may change the length, as for the sharp s). Its
  table is not part of the repository, so the functions below that call it take it as the
  parameter \<open>upper\<close>, and every statement about them holds whatever that function is.
\<close>

text \<open>
  Python's \<open>pat in s\<close> on strings, which is what \<open>Series.str.contains(pat, regex=False)\<close>
  evaluates on each string element: \<open>pat\<close> is searched literally at every position.
\<close>

fun starts_with :: "string \<Rightarrow> string \<Rightarrow> bool" where
  "starts_with [] s = True"
| "starts_with (p # ps) [] = False"
| "starts_with (p # ps) (c # cs) = (p = c \<and> starts_with ps cs)"

fun py_in :: "string \<Rightarrow> string \<Rightarrow> bool" where
  "py_in pat [] = (pat = [])"
| "py_in pat (c # cs) = (starts_with pat (c # cs) \<or> py_in pat cs)"

section \<open>The parsed query\<close>

text \<open>
  \<open>parsed_query\<close> is a Python dict; \<open>d.get(k)\<close> gives \<open>None\<close> for an absent key and
  \<open>d.get(k, default)\<close> gives the default.
\<close>

type_synonym query = "string \<rightharpoonup> pyval"

definition get_default :: "query \<Rightarrow> string \<Rightarrow> pyval \<Rightarrow> pyval" where
  "get_default d k dflt = (case d k of None \<Rightarrow> dflt | Some v \<Rightarrow> v)"

definition get :: "query \<Rightarrow> string \<Rightarrow> pyval" where
  "get d k = get_default d k PNone"

section \<open>The data frame\<close>

text \<open>
  A cell of the frame loaded by \<open>pd.read_csv\<close>: an empty field is \<open>NaN\<close>, a field of a
  column parsed as numbers is a number, any other field is its text.
\<close>

datatype cell = NaN | Str string | Num int

type_synonym row = "string \<Rightarrow> cell"

record dataframe =
  columns :: "string list"
  rows :: "row list"

datatype error =
    ValueError string "string list"
  | AttributeError
  | KeyError string
  | OracleError

text \<open>
  \<open>ValueError req avail\<close> stands for the exception of line 205, whose message is
  \<open>Column 'req' not found in dataset. Available columns: avail\<close>.
  \<open>AttributeError\<close> is what the \<open>.str\<close> accessor raises on a series that holds no text.
  \<open>KeyError\<close> is what \<open>df[name]\<close> raises when \<open>name\<close> is not a column.
  \<open>OracleError\<close> stands for any exception of \<open>parse_question\<close> (the API call or
  \<open>json.loads\<close>).
\<close>

type_synonym series = "cell list"

text \<open>\<open>key in df.columns\<close>: the column index holds strings only.\<close>

fun in_columns :: "pyval \<Rightarrow> dataframe \<Rightarrow> bool" where
  "in_columns (PStr c) df = (c \<in> set (columns df))"
| "in_columns k df = False"

text \<open>\<open>df[key]\<close>: the column as a series, one cell per row.\<close>

fun getitem :: "dataframe \<Rightarrow> pyval \<Rightarrow> error + series" where
  "getitem df (PStr c) =
     (if c \<in> set (columns df) then Inr (map (\<lambda>r. r c) (rows df)) else Inl (KeyError c))"
| "getitem df k = Inl (KeyError (py_str k))"

text \<open>
  The \<open>.str\<close> accessor. \<open>read_csv\<close> gives a column the \<open>object\<close> dtype when some field
  of it is text (and when the file has no data row at all); a column whose fields are all
  numbers or empty is \<open>int64\<close> or \<open>float64\<close>, and \<open>.str\<close> on it raises
  \<open>AttributeError: Can only use .str accessor with string values!\<close>.
\<close>

definition is_Str :: "cell \<Rightarrow> bool" where
  "is_Str c = (case c of Str s \<Rightarrow> True | _ \<Rightarrow> False)"

definition str_accessor :: "series \<Rightarrow> error + series" where
  "str_accessor s = (if s = [] \<or> list_ex is_Str s then Inr s else Inl AttributeError)"

text \<open>
  \<open>Series.str.upper()\<close>: \<open>str.upper()\<close> on each element that is a string; an element
  that is not a string gives \<open>NaN\<close>.
\<close>

fun str_upper :: "(string \<Rightarrow> string) \<Rightarrow> cell \<Rightarrow> cell" where
  "str_upper upper (Str s) = Str (upper s)"
| "str_upper upper c = NaN"

text \<open>\<open>series == v\<close> for a string \<open>v\<close>: elementwise; \<open>NaN == v\<close> is \<open>False\<close>.\<close>

fun eq_str :: "string \<Rightarrow> cell \<Rightarrow> bool" where
  "eq_str v (Str s) = (s = v)"
| "eq_str v c = False"

text \<open>
  \<open>Series.str.contains(pat, na=False, regex=False)\<close>: elementwise \<open>pat in s\<close>; an element
  that is not a string is filled with \<open>na\<close>, that is \<open>False\<close>.
\<close>

fun str_contains :: "string \<Rightarrow> cell \<Rightarrow> bool" where
  "str_contains pat (Str s) = py_in pat s"
| "str_contains pat c = False"

text \<open>\<open>df[mask]\<close>: the rows at which the boolean mask is \<open>True\<close>, in order.\<close>

definition boolean_index :: "dataframe \<Rightarrow> bool list \<Rightarrow> dataframe" where
  "boolean_index df row_mask = df\<lparr>rows := map snd (filter fst (zip row_mask (rows df)))\<rparr>"

text \<open>
  \<open>Series.unique()\<close>: the distinct values in order of first appearance (all \<open>NaN\<close> count
  as one value). \<open>seen\<close> is the hash table of values met so far.
\<close>

fun unique_from :: "'a list \<Rightarrow> 'a list \<Rightarrow> 'a list" where
  "unique_from seen [] = []"
| "unique_from seen (x # xs) =
     (if x \<in> set seen then unique_from seen xs else x # unique_from (x # seen) xs)"

definition unique :: "'a list \<Rightarrow> 'a list" where
  "unique xs = unique_from [] xs"

text \<open>\<open>len(df)\<close>, \<open>df.head(n)\<close> and \<open>df.to_dict(orient="records")\<close>.\<close>

definition len :: "dataframe \<Rightarrow> nat" where
  "len df = length (rows df)"

definition head :: "nat \<Rightarrow> dataframe \<Rightarrow> dataframe" where
  "head n df = df\<lparr>rows := take n (rows df)\<rparr>"

type_synonym record_dict = "(string \<times> cell) list"

definition to_record :: "string list \<Rightarrow> row \<Rightarrow> record_dict" where
  "to_record cols r = map (\<lambda>c. (c, r c)) cols"

definition to_dict_records :: "dataframe \<Rightarrow> record_dict list" where
  "to_dict_records df = map (to_record (columns df)) (rows df)"

section \<open>The agent\<close>

text \<open>
  The attributes that \<open>__init__\<close> sets (lines 120 to 131): the API client, whose state is
  not modelled further (\<open>'c\<close>), the data frame read from the file, and the schema text for
  the prompt. (\<open>self.schema\<close> is the constant \<open>AE_SCHEMA\<close>.)
\<close>

record 'c agent =
  client :: 'c
  ae_df :: dataframe
  schema_context :: string

text \<open>\<open>ClinicalTrialDataAgent.execute_query\<close> (lines 197 to 229).\<close>

definition execute_query ::
  "(string \<Rightarrow> string) \<Rightarrow> 'c agent \<Rightarrow> query \<Rightarrow> error + (nat \<times> cell list \<times> dataframe)" where
  "execute_query upper self parsed_query =
     (let target_column = get parsed_query ''target_column'';
          filter_value = get parsed_query ''filter_value'';
          match_type = get_default parsed_query ''match_type'' (PStr ''contains'')
      in if \<not> in_columns target_column (ae_df self)
         then Inl (ValueError (py_str target_column) (columns (ae_df self)))
         else
           (case getitem (ae_df self) target_column of
              Inl e \<Rightarrow> Inl e
            | Inr col \<Rightarrow>
               (case str_accessor col of
                  Inl e \<Rightarrow> Inl e
                | Inr s \<Rightarrow>
                   (let row_mask =
                          (if match_type = PStr ''exact''
                           then map (\<lambda>c. eq_str (upper (py_str filter_value)) (str_upper upper c)) s
                           else map (\<lambda>c. str_contains (upper (py_str filter_value))
                                          (str_upper upper c)) s);
                        filtered_df = boolean_index (ae_df self) row_mask
                    in (case getitem filtered_df (PStr ''USUBJID'') of
                          Inl e \<Rightarrow> Inl e
                        | Inr subj \<Rightarrow>
                           (let unique_subjects = unique subj;
                                subject_count = length unique_subjects
                            in Inr (subject_count, unique_subjects, filtered_df)))))))"

record results =
  unique_subject_count :: nat
  subject_ids :: "cell list"
  total_records :: nat
  sample_data :: "record_dict list"

record response =
  question :: string
  parsed_query :: query
  results :: results

text \<open>
  \<open>ClinicalTrialDataAgent.ask\<close> (lines 231 to 252). \<open>parse_question\<close> calls the language
  model through \<open>self.client\<close>; it is a parameter here, an arbitrary function of the agent
  and the question that returns a dict or raises.
\<close>

definition ask ::
  "(string \<Rightarrow> string) \<Rightarrow> ('c agent \<Rightarrow> string \<Rightarrow> error + query) \<Rightarrow> 'c agent \<Rightarrow> string
   \<Rightarrow> error + response" where
  "ask upper parse_question self qn =
     (case parse_question self qn of
        Inl e \<Rightarrow> Inl e
      | Inr pq \<Rightarrow>
         (case execute_query upper self pq of
            Inl e \<Rightarrow> Inl e
          | Inr (subject_count, ids, filtered_df) \<Rightarrow>
             Inr \<lparr>question = qn,
                  parsed_query = pq,
                  results = \<lparr>unique_subject_count = subject_count,
                             subject_ids = ids,
                             total_records = len filtered_df,
                             sample_data =
                               (if len filtered_df > 0
                                then to_dict_records (head 5 filtered_df) else [])\<rparr>\<rparr>))"

section \<open>Notions used in the proofs\<close>

text \<open>The entry of the boolean mask of lines 208 to 219 at one cell of the target column.\<close>

definition cell_mask :: "(string \<Rightarrow> string) \<Rightarrow> query \<Rightarrow> cell \<Rightarrow> bool" where
  "cell_mask upper q c =
     (if get_default q ''match_type'' (PStr ''contains'') = PStr ''exact''
      then eq_str (upper (py_str (get q ''filter_value''))) (str_upper upper c)
      else str_contains (upper (py_str (get q ''filter_value''))) (str_upper upper c))"

text \<open>The column is one on which the \<open>.str\<close> accessor works.\<close>

definition has_text :: "dataframe \<Rightarrow> string \<Rightarrow> bool" where
  "has_text df c \<longleftrightarrow> rows df = [] \<or> (\<exists>r\<in>set (rows df). is_Str (r c))"

section \<open>Example data\<close>

text \<open>
  What \<open>str.upper()\<close> returns on ASCII text: the letters \<open>a\<close> to \<open>z\<close> move to \<open>A\<close> to
  \<open>Z\<close>, every other character stays. The examples below hold ASCII text only and are
  evaluated with it.
\<close>

definition ascii_upper_char :: "char \<Rightarrow> char" where
  "ascii_upper_char c =
     (case map_of (zip ''abcdefghijklmnopqrstuvwxyz'' ''ABCDEFGHIJKLMNOPQRSTUVWXYZ'') c of
        Some u \<Rightarrow> u
      | None \<Rightarrow> c)"

definition ascii_upper :: "string \<Rightarrow> string" where
  "ascii_upper s = map ascii_upper_char s"

text \<open>A row given by its fields; a field that is not listed is empty.\<close>

definition mk_row :: "(string \<times> cell) list \<Rightarrow> row" where
  "mk_row kvs = (\<lambda>c. case map_of kvs c of Some v \<Rightarrow> v | None \<Rightarrow> NaN)"

text \<open>
  Three records of subject \<open>S1\<close> with severity \<open>MILD\<close>, \<open>SEVERE\<close>, \<open>SEVERE\<close>, two
  records of \<open>S2\<close> and one record of \<open>S3\<close> whose term and severity are empty. The study
  day is a number in every record.
\<close>

definition ae_example :: dataframe where
  "ae_example =
     \<lparr>columns = [''USUBJID'', ''AETERM'', ''AESEV'', ''AESTDY''],
      rows =
        [mk_row [(''USUBJID'', Str ''S1''), (''AETERM'', Str ''Headache''),
                 (''AESEV'', Str ''MILD''), (''AESTDY'', Num 3)],
         mk_row [(''USUBJID'', Str ''S1''), (''AETERM'', Str ''Severe Headache Disorder''),
                 (''AESEV'', Str ''SEVERE''), (''AESTDY'', Num 5)],
         mk_row [(''USUBJID'', Str ''S1''), (''AETERM'', Str ''Nausea''),
                 (''AESEV'', Str ''SEVERE''), (''AESTDY'', Num 8)],
         mk_row [(''USUBJID'', Str ''S2''), (''AETERM'', Str ''Head.ache''),
                 (''AESEV'', Str ''SEVERE''), (''AESTDY'', Num 5)],
         mk_row [(''USUBJID'', Str ''S3''), (''AESTDY'', Num 12)],
         mk_row [(''USUBJID'', Str ''S2''), (''AETERM'', Str ''Dizziness''),
                 (''AESEV'', Str ''Moderate''), (''AESTDY'', Num 20)]]\<rparr>"

text \<open>Two records whose severity field is empty in the file.\<close>

definition ae_no_severity :: dataframe where
  "ae_no_severity =
     \<lparr>columns = [''USUBJID'', ''AETERM'', ''AESEV''],
      rows =
        [mk_row [(''USUBJID'', Str ''S1''), (''AETERM'', Str ''Headache'')],
         mk_row [(''USUBJID'', Str ''S2''), (''AETERM'', Str ''Nausea'')]]\<rparr>"

text \<open>
  Agents on these data. The client is a number here (say, the calls made so far); the
  second agent holds the same data as the first and differs in everything else.
\<close>

definition example_agent :: "nat agent" where
  "example_agent = \<lparr>client = 0, ae_df = ae_example, schema_context = ''Column: USUBJID''\<rparr>"

definition later_agent :: "nat agent" where
  "later_agent = \<lparr>client = 7, ae_df = ae_example, schema_context = []\<rparr>"

definition no_severity_agent :: "nat agent" where
  "no_severity_agent = \<lparr>client = 0, ae_df = ae_no_severity, schema_context = []\<rparr>"

text \<open>Parsed queries, as the language model may return them.\<close>

definition q_severe :: query where
  "q_severe = [''target_column'' \<mapsto> PStr ''AESEV'', ''filter_value'' \<mapsto> PStr ''severe'',
               ''match_type'' \<mapsto> PStr ''exact'']"


definition q_mild :: query where
  "q_mild = [''target_column'' \<mapsto> PStr ''AESEV'', ''filter_value'' \<mapsto> PStr ''mild'',
             ''match_type'' \<mapsto> PStr ''exact'']"

definition q_dot :: query where
  "q_dot = [''target_column'' \<mapsto> PStr ''AETERM'', ''filter_value'' \<mapsto> PStr ''d.'']"


definition q_study_day :: query where
  "q_study_day = [''target_column'' \<mapsto> PStr ''AESTDY'', ''filter_value'' \<mapsto> PInt 5,
                  ''match_type'' \<mapsto> PStr ''exact'']"

definition q_subject_digit :: query where
  "q_subject_digit = [''target_column'' \<mapsto> PStr ''USUBJID'', ''filter_value'' \<mapsto> PInt 1,
                      ''match_type'' \<mapsto> PStr ''contains'']"

definition q_all_subjects :: query where
  "q_all_subjects = [''target_column'' \<mapsto> PStr ''USUBJID'', ''filter_value'' \<mapsto> PStr ''s'',
                     ''match_type'' \<mapsto> PStr ''contains'']"

text \<open>
  The response expected for a question that selects every record: six records match, and
  the sample holds the first five, each with its four fields.
\<close>

definition example_response :: response where
  "example_response =
     \<lparr>question = ''Which subjects are in the data?'',
      parsed_query = q_all_subjects,
      results =
        \<lparr>unique_subject_count = 3,
         subject_ids = [Str ''S1'', Str ''S2'', Str ''S3''],
         total_records = 6,
         sample_data =
           [[(''USUBJID'', Str ''S1''), (''AETERM'', Str ''Headache''),
             (''AESEV'', Str ''MILD''), (''AESTDY'', Num 3)],
            [(''USUBJID'', Str ''S1''), (''AETERM'', Str ''Severe Headache Disorder''),
             (''AESEV'', Str ''SEVERE''), (''AESTDY'', Num 5)],
            [(''USUBJID'', Str ''S1''), (''AETERM'', Str ''Nausea''),
             (''AESEV'', Str ''SEVERE''), (''AESTDY'', Num 8)],
            [(''USUBJID'', Str ''S2''), (''AETERM'', Str ''Head.ache''),
             (''AESEV'', Str ''SEVERE''), (''AESTDY'', Num 5)],
            [(''USUBJID'', Str ''S3''), (''AETERM'', NaN),
             (''AESEV'', NaN), (''AESTDY'', Num 12)]]\<rparr>\<rparr>"

section \<open>Basic facts\<close>

lemma zip_mask_filter:
  "map snd (filter fst (zip (map f rs) rs)) = filter f rs"
  by (induction rs) auto

lemma boolean_index_map:
  "boolean_index df (map g (rows df)) = df\<lparr>rows := filter g (rows df)\<rparr>"
  unfolding boolean_index_def by (simp only: zip_mask_filter)

lemma str_accessor_cases:
  "str_accessor s = (if s = [] \<or> (\<exists>c\<in>set s. is_Str c) then Inr s else Inl AttributeError)"
  by (auto simp: str_accessor_def list_ex_iff)

lemma is_Str_iff: "is_Str c \<longleftrightarrow> (\<exists>s. c = Str s)"
  by (cases c) (simp_all add: is_Str_def)

text \<open>The outcome of \<open>execute_query\<close>, branch by branch.\<close>

lemma execute_query_unfold:
  "execute_query upper self q =
     (case get q ''target_column'' of
        PStr c \<Rightarrow>
          if c \<notin> set (columns (ae_df self)) then Inl (ValueError c (columns (ae_df self)))
          else if \<not> has_text (ae_df self) c then Inl AttributeError
          else if ''USUBJID'' \<notin> set (columns (ae_df self)) then Inl (KeyError ''USUBJID'')
          else (let fdf = (ae_df self)\<lparr>rows :=
                             filter (\<lambda>r. cell_mask upper q (r c)) (rows (ae_df self))\<rparr>;
                    ids = unique (map (\<lambda>r. r ''USUBJID'') (rows fdf))
                in Inr (length ids, ids, fdf))
      | k \<Rightarrow> Inl (ValueError (py_str k) (columns (ae_df self))))"
proof (cases "get q ''target_column''")
  case (PStr c)
  show ?thesis
  proof (cases "c \<in> set (columns (ae_df self))")
    case False
    then show ?thesis using PStr by (simp add: execute_query_def)
  next
    case True
    show ?thesis
    proof (cases "has_text (ae_df self) c")
      case False
      then show ?thesis using PStr True
        by (auto simp: execute_query_def str_accessor_cases has_text_def)
    next
      case ht: True
      then have sa: "str_accessor (map (\<lambda>r. r c) (rows (ae_df self)))
                     = Inr (map (\<lambda>r. r c) (rows (ae_df self)))"
        by (auto simp: str_accessor_cases has_text_def)
      show ?thesis using PStr True ht sa
        by (simp add: execute_query_def Let_def boolean_index_map cell_mask_def comp_def)
    qed
  qed
qed (simp_all add: execute_query_def)

lemma get_Some: "q k = Some v \<Longrightarrow> get q k = v"
  by (simp add: get_def get_default_def)



text \<open>
  The outcome is fixed by the data frame, by the three entries of the query that are read,
  and by the mask they give.
\<close>

lemma execute_query_cong:
  assumes "ae_df a = ae_df a'"
    and "get q ''target_column'' = get q' ''target_column''"
    and "\<And>v. cell_mask upper q v = cell_mask upper q' v"
  shows "execute_query upper a q = execute_query upper a' q'"
  by (cases "get q' ''target_column''") (simp_all add: execute_query_unfold assms)

subsection \<open>Substring search and the mask\<close>

lemma starts_with_iff: "starts_with p s \<longleftrightarrow> (\<exists>ss. s = p @ ss)"
  by (induction p s rule: starts_with.induct) auto

lemma py_in_iff: "py_in p s \<longleftrightarrow> (\<exists>ps ss. s = ps @ p @ ss)"
proof (induction s)
  case Nil
  then show ?case by auto
next
  case (Cons c cs)
  show ?case
  proof
    assume "py_in p (c # cs)"
    then consider "starts_with p (c # cs)" | "py_in p cs" by auto
    then show "\<exists>ps ss. c # cs = ps @ p @ ss"
    proof cases
      case 1
      then obtain ss where "c # cs = p @ ss" by (auto simp: starts_with_iff)
      then have "c # cs = [] @ p @ ss" by simp
      then show ?thesis by blast
    next
      case 2
      then obtain ps ss where "cs = ps @ p @ ss" using Cons.IH by auto
      then have "c # cs = (c # ps) @ p @ ss" by simp
      then show ?thesis by blast
    qed
  next
    assume "\<exists>ps ss. c # cs = ps @ p @ ss"
    then obtain ps ss where e: "c # cs = ps @ p @ ss" by auto
    show "py_in p (c # cs)"
    proof (cases ps)
      case Nil
      then have "starts_with p (c # cs)" using e by (auto simp: starts_with_iff)
      then show ?thesis by simp
    next
      case (Cons a as)
      then have "cs = as @ p @ ss" using e by simp
      then have "py_in p cs" using Cons.IH by blast
      then show ?thesis by simp
    qed
  qed
qed


lemma eq_str_upper_iff:
  "eq_str v (str_upper upper c) \<longleftrightarrow> (\<exists>s. c = Str s \<and> upper s = v)"
  by (cases c) auto

lemma str_contains_upper_iff:
  "str_contains p (str_upper upper c) \<longleftrightarrow> (\<exists>s ps ss. c = Str s \<and> upper s = ps @ p @ ss)"
  by (cases c) (auto simp: py_in_iff)

lemma execute_query_Inr:
  assumes "execute_query upper self q = Inr (n, ids, fdf)"
    and "get q ''target_column'' = PStr c"
  shows "c \<in> set (columns (ae_df self))" and "has_text (ae_df self) c"
    and "''USUBJID'' \<in> set (columns (ae_df self))"
    and "fdf = (ae_df self)\<lparr>rows := filter (\<lambda>r. cell_mask upper q (r c)) (rows (ae_df self))\<rparr>"
    and "ids = unique (map (\<lambda>r. r ''USUBJID'') (rows fdf))"
    and "n = length ids"
  using assms by (auto simp: execute_query_unfold Let_def split: if_splits)

lemma execute_query_Inr_target:
  assumes "execute_query upper self q = Inr res"
  shows "\<exists>c. q ''target_column'' = Some (PStr c)"
proof (cases "q ''target_column''")
  case None
  then show ?thesis using assms by (simp add: execute_query_unfold get_def get_default_def)
next
  case (Some v)
  then have "get q ''target_column'' = v" by (rule get_Some)
  then show ?thesis using assms Some by (cases v) (simp_all add: execute_query_unfold)
qed

subsection \<open>First-occurrence de-duplication\<close>



lemma length_unique_from_le: "length (unique_from seen xs) \<le> length xs"
proof (induction xs arbitrary: seen)
  case Nil
  show ?case by simp
next
  case (Cons x xs)
  have "length (unique_from seen xs) \<le> length xs"
    and "length (unique_from (x # seen) xs) \<le> length xs"
    by (rule Cons.IH)+
  then show ?case by simp
qed

lemma length_unique_from_eq:
  "length (unique_from seen xs) = length xs \<longleftrightarrow> distinct xs \<and> set xs \<inter> set seen = {}"
proof (induction xs arbitrary: seen)
  case Nil
  show ?case by simp
next
  case (Cons x xs)
  show ?case
  proof (cases "x \<in> set seen")
    case True
    have "length (unique_from seen xs) \<le> length xs" by (rule length_unique_from_le)
    then show ?thesis using True by auto
  next
    case False
    then show ?thesis using Cons.IH [of "x # seen"] by auto
  qed
qed



lemma distinct_iff_count:
  "distinct xs \<longleftrightarrow> (\<forall>s. length (filter (\<lambda>x. x = s) xs) \<le> 1)"
proof (induction xs)
  case Nil
  show ?case by simp
next
  case (Cons x xs)
  have a: "x \<notin> set xs \<longleftrightarrow> filter (\<lambda>y. y = x) xs = []"
    by (auto simp: filter_empty_conv)
  show ?case
  proof
    assume d: "distinct (x # xs)"
    then have "filter (\<lambda>y. y = x) xs = []" using a by simp
    moreover have "\<forall>s. length (filter (\<lambda>x. x = s) xs) \<le> 1" using d Cons.IH by simp
    ultimately show "\<forall>s. length (filter (\<lambda>y. y = s) (x # xs)) \<le> 1" by auto
  next
    assume h: "\<forall>s. length (filter (\<lambda>y. y = s) (x # xs)) \<le> 1"
    then have "length (filter (\<lambda>y. y = x) (x # xs)) \<le> 1" by blast
    then have "filter (\<lambda>y. y = x) xs = []" by simp
    then have nx: "x \<notin> set xs" using a by simp
    have "\<forall>s. length (filter (\<lambda>y. y = s) xs) \<le> 1"
    proof
      fix s
      have "length (filter (\<lambda>y. y = s) xs) \<le> length (filter (\<lambda>y. y = s) (x # xs))" by simp
      also have "\<dots> \<le> 1" using h by blast
      finally show "length (filter (\<lambda>y. y = s) xs) \<le> 1" .
    qed
    then have "distinct xs" using Cons.IH by simp
    then show "distinct (x # xs)" using nx by simp
  qed
qed

subsection \<open>Further facts on the outcome\<close>

lemma missing_never_matches:
  assumes "q ''target_column'' = Some (PStr c)"
    and "execute_query upper self q = Inr (n, ids, fdf)"
  shows "\<forall>r\<in>set (rows fdf). r c \<noteq> NaN"
proof -
  have g: "get q ''target_column'' = PStr c" using assms(1) by (rule get_Some)
  have "fdf = (ae_df self)\<lparr>rows := filter (\<lambda>r. cell_mask upper q (r c)) (rows (ae_df self))\<rparr>"
    using execute_query_Inr(4) [OF assms(2) g] .
  moreover have "\<not> cell_mask upper q NaN" by (simp add: cell_mask_def)
  ultimately show ?thesis by auto
qed

lemma execute_query_returns:
  assumes "q ''target_column'' = Some (PStr c)" and "c \<in> set (columns (ae_df self))"
    and "''USUBJID'' \<in> set (columns (ae_df self))"
    and "rows (ae_df self) = [] \<or> (\<exists>r\<in>set (rows (ae_df self)). \<exists>s. r c = Str s)"
  shows "\<exists>res. execute_query upper self q = Inr res"
proof -
  have g: "get q ''target_column'' = PStr c" using assms(1) by (rule get_Some)
  have "has_text (ae_df self) c" using assms(4) by (auto simp: has_text_def is_Str_iff)
  then show ?thesis using g assms(2,3) by (simp add: execute_query_unfold Let_def)
qed

text \<open>
  \<open>str(filter_value)\<close> (lines 211 and 216): the outcome for a filter value is the outcome
  for its string form.
\<close>

lemma filter_value_is_stringified:
  "execute_query upper self q
   = execute_query upper self (q(''filter_value'' \<mapsto> PStr (py_str (get q ''filter_value''))))"
proof (rule execute_query_cong)
  show "ae_df self = ae_df self" by simp
  show "get q ''target_column''
        = get (q(''filter_value'' \<mapsto> PStr (py_str (get q ''filter_value'')))) ''target_column''"
    by (simp add: get_def get_default_def)
  show "cell_mask upper q v
        = cell_mask upper (q(''filter_value'' \<mapsto> PStr (py_str (get q ''filter_value'')))) v" for v
    by (simp add: cell_mask_def get_def get_default_def)
qed

lemma ask_Inr:
  assumes "ask upper parse self qn = Inr resp"
  shows "\<exists>n ids fdf. parse self qn = Inr (parsed_query resp)
           \<and> execute_query upper self (parsed_query resp) = Inr (n, ids, fdf)
           \<and> question resp = qn
           \<and> unique_subject_count (results resp) = n
           \<and> subject_ids (results resp) = ids
           \<and> total_records (results resp) = len fdf
           \<and> sample_data (results resp)
               = (if len fdf > 0 then to_dict_records (head 5 fdf) else [])"
  using assms by (auto simp: ask_def split: sum.splits prod.splits)

lemma execute_query_columns:
  assumes "execute_query upper self q = Inr (n, ids, fdf)"
  shows "columns fdf = columns (ae_df self)"
proof -
  obtain c where "q ''target_column'' = Some (PStr c)"
    using execute_query_Inr_target [OF assms] by blast
  then have "get q ''target_column'' = PStr c" by (rule get_Some)
  then show ?thesis using execute_query_Inr(4) [OF assms] by simp
qed

lemma execute_query_rows:
  assumes "execute_query upper self q = Inr (n, ids, fdf)"
  shows "\<exists>P. rows fdf = filter P (rows (ae_df self))"
proof -
  obtain c where "q ''target_column'' = Some (PStr c)"
    using execute_query_Inr_target [OF assms] by blast
  then have "get q ''target_column'' = PStr c" by (rule get_Some)
  then have "rows fdf = filter (\<lambda>r. cell_mask upper q (r c)) (rows (ae_df self))"
    using execute_query_Inr(4) [OF assms] by simp
  then show ?thesis by blast
qed

lemmas example_eval =
  execute_query_unfold example_agent_def later_agent_def no_severity_agent_def
  ae_example_def ae_no_severity_def get_def get_default_def has_text_def
  is_Str_def mk_row_def cell_mask_def ascii_upper_def ascii_upper_char_def unique_def Let_def

subsection \<open>The definitions on examples\<close>

lemma py_str_examples:
  "py_str PNone = ''None''" "py_str (PBool True) = ''True''" "py_str (PBool False) = ''False''"
  "py_str (PInt 5) = ''5''" "py_str (PInt 0) = ''0''" "py_str (PInt (- 120)) = ''-120''"
  "py_str (PInt 125) = ''125''" "py_str (PStr ''Head.ache'') = ''Head.ache''"
  by (simp_all add: str_int_def str_nat.simps digit_char_def)

lemma ascii_upper_examples:
  "ascii_upper ''severe'' = ''SEVERE''" "ascii_upper ''Head.ache 01'' = ''HEAD.ACHE 01''"
  "ascii_upper [] = []"
  by (simp_all add: ascii_upper_def ascii_upper_char_def)

lemma py_in_examples:
  "py_in ''ACHE'' ''HEADACHE''" "py_in ''D.'' ''HEAD.ACHE''" "\<not> py_in ''D.'' ''HEADACHE''"
  "py_in [] []" "\<not> py_in ''A'' []" "\<not> py_in ''HEADACHES'' ''HEADACHE''"
  by simp_all

lemma unique_examples:
  "unique [Str ''S1'', Str ''S1'', Str ''S2'', NaN, Str ''S1'', NaN] = [Str ''S1'', Str ''S2'', NaN]"
  "unique ([] :: cell list) = []"
  by (simp_all add: unique_def)

text \<open>
  A number as filter value on a column of text: \<open>1\<close> is compared as the string \<open>1\<close>,
  which the identifiers of subject \<open>S1\<close> contain.
\<close>

lemma number_on_text_column:
  "execute_query ascii_upper example_agent q_subject_digit
   = Inr (1, [Str ''S1''], ae_example\<lparr>rows := take 3 (rows ae_example)\<rparr>)"
  by (simp add: example_eval q_subject_digit_def str_int_def str_nat.simps digit_char_def)

section \<open>Claims\<close>

text \<open>
  C1. With match type \<open>exact\<close>, whenever \<open>execute_query\<close> returns, the filtered frame
  holds exactly the rows of the dataset (in the dataset's order) whose value in the target
  column is a string that, in upper case, equals the upper-cased filter value. Stored value
  and filter value enter through their upper-case forms only; in particular a filter value
  with the same upper-case form, such as another casing of it, gives the same outcome.
\<close>

theorem exact_match_rows:
  assumes "q ''match_type'' = Some (PStr ''exact'')"
    and "q ''target_column'' = Some (PStr c)"
    and "execute_query upper self q = Inr (n, ids, fdf)"
  shows "rows fdf
         = filter (\<lambda>r. \<exists>s. r c = Str s \<and> upper s = upper (py_str (get q ''filter_value'')))
             (rows (ae_df self))
         \<and> (\<forall>v'. upper (py_str v') = upper (py_str (get q ''filter_value'')) \<longrightarrow>
               execute_query upper self (q(''filter_value'' \<mapsto> v')) = execute_query upper self q)"
proof -
  have g: "get q ''target_column'' = PStr c" using assms(2) by (rule get_Some)
  have m: "get_default q ''match_type'' (PStr ''contains'') = PStr ''exact''"
    using assms(1) by (simp add: get_default_def)
  have "fdf = (ae_df self)\<lparr>rows := filter (\<lambda>r. cell_mask upper q (r c)) (rows (ae_df self))\<rparr>"
    using execute_query_Inr(4) [OF assms(3) g] .
  then have a: "rows fdf
         = filter (\<lambda>r. \<exists>s. r c = Str s \<and> upper s = upper (py_str (get q ''filter_value'')))
             (rows (ae_df self))"
    by (simp add: cell_mask_def m eq_str_upper_iff)
  have b: "execute_query upper self (q(''filter_value'' \<mapsto> v')) = execute_query upper self q"
    if u: "upper (py_str v') = upper (py_str (get q ''filter_value''))" for v'
  proof (rule execute_query_cong)
    show "ae_df self = ae_df self" by simp
    show "get (q(''filter_value'' \<mapsto> v')) ''target_column'' = get q ''target_column''"
      by (simp add: get_def get_default_def)
    show "cell_mask upper (q(''filter_value'' \<mapsto> v')) v = cell_mask upper q v" for v
      using u by (simp add: cell_mask_def get_def get_default_def)
  qed
  show ?thesis using a b by blast
qed

theorem exact_match_rows_witness:
  "execute_query ascii_upper example_agent q_severe
     = Inr (2, [Str ''S1'', Str ''S2''], ae_example\<lparr>rows := take 3 (drop 1 (rows ae_example))\<rparr>)
   \<and> take 3 (drop 1 (rows ae_example))
     = filter (\<lambda>r. \<exists>s. r ''AESEV'' = Str s \<and> ascii_upper s = ''SEVERE'') (rows ae_example)
   \<and> execute_query ascii_upper example_agent (q_severe(''filter_value'' \<mapsto> PStr ''SeVeRe''))
     = execute_query ascii_upper example_agent q_severe"
proof -
  have h1: "q_severe ''match_type'' = Some (PStr ''exact'')" by (simp add: q_severe_def)
  have h2: "q_severe ''target_column'' = Some (PStr ''AESEV'')" by (simp add: q_severe_def)
  have h3: "execute_query ascii_upper example_agent q_severe
     = Inr (2, [Str ''S1'', Str ''S2''], ae_example\<lparr>rows := take 3 (drop 1 (rows ae_example))\<rparr>)"
    by (simp add: example_eval q_severe_def)
  have fv: "ascii_upper (py_str (get q_severe ''filter_value'')) = ''SEVERE''"
    by (simp add: q_severe_def get_def get_default_def ascii_upper_def ascii_upper_char_def)
  have u: "ascii_upper (py_str (PStr ''SeVeRe'')) = ''SEVERE''"
    by (simp add: ascii_upper_def ascii_upper_char_def)
  have t: "rows (ae_example\<lparr>rows := take 3 (drop 1 (rows ae_example))\<rparr>)
           = filter (\<lambda>r. \<exists>s. r ''AESEV'' = Str s \<and> ascii_upper s = ''SEVERE'')
               (rows (ae_df example_agent))
         \<and> (\<forall>v'. ascii_upper (py_str v') = ''SEVERE'' \<longrightarrow>
               execute_query ascii_upper example_agent (q_severe(''filter_value'' \<mapsto> v'))
               = execute_query ascii_upper example_agent q_severe)"
    using exact_match_rows [OF h1 h2 h3] unfolding fv .
  have e: "ae_df example_agent = ae_example" by (simp add: example_agent_def)
  show ?thesis using t h3 u by (simp add: e)
qed

text \<open>
  C2. With match type \<open>contains\<close>, with no match type, or with any match type other
  than \<open>exact\<close>, whenever \<open>execute_query\<close> returns, the filtered frame holds exactly the
  rows whose value in the target column is a string that, in upper case, has the
  upper-cased filter value as a contiguous part; the filter value is taken literally.
\<close>

theorem contains_match_rows:
  assumes "q ''match_type'' \<noteq> Some (PStr ''exact'')"
    and "q ''target_column'' = Some (PStr c)"
    and "execute_query upper self q = Inr (n, ids, fdf)"
  shows "rows fdf
         = filter (\<lambda>r. \<exists>s ps ss. r c = Str s
                      \<and> upper s = ps @ upper (py_str (get q ''filter_value'')) @ ss)
             (rows (ae_df self))"
proof -
  have g: "get q ''target_column'' = PStr c" using assms(2) by (rule get_Some)
  have m: "get_default q ''match_type'' (PStr ''contains'') \<noteq> PStr ''exact''"
    using assms(1) by (cases "q ''match_type''") (simp_all add: get_default_def)
  have "fdf = (ae_df self)\<lparr>rows := filter (\<lambda>r. cell_mask upper q (r c)) (rows (ae_df self))\<rparr>"
    using execute_query_Inr(4) [OF assms(3) g] .
  then show ?thesis by (simp add: cell_mask_def m str_contains_upper_iff)
qed

theorem contains_match_rows_witness:
  "execute_query ascii_upper example_agent q_dot
     = Inr (1, [Str ''S2''], ae_example\<lparr>rows := take 1 (drop 3 (rows ae_example))\<rparr>)
   \<and> take 1 (drop 3 (rows ae_example))
     = filter (\<lambda>r. \<exists>s ps ss. r ''AETERM'' = Str s \<and> ascii_upper s = ps @ ''D.'' @ ss)
         (rows ae_example)"
proof -
  have h1: "q_dot ''match_type'' \<noteq> Some (PStr ''exact'')" by (simp add: q_dot_def)
  have h2: "q_dot ''target_column'' = Some (PStr ''AETERM'')" by (simp add: q_dot_def)
  have h3: "execute_query ascii_upper example_agent q_dot
     = Inr (1, [Str ''S2''], ae_example\<lparr>rows := take 1 (drop 3 (rows ae_example))\<rparr>)"
    by (simp add: example_eval q_dot_def)
  have fv: "ascii_upper (py_str (get q_dot ''filter_value'')) = ''D.''"
    by (simp add: q_dot_def get_def get_default_def ascii_upper_def ascii_upper_char_def)
  have t: "rows (ae_example\<lparr>rows := take 1 (drop 3 (rows ae_example))\<rparr>)
     = filter (\<lambda>r. \<exists>s ps ss. r ''AETERM'' = Str s \<and> ascii_upper s = ps @ ''D.'' @ ss)
         (rows (ae_df example_agent))"
    using contains_match_rows [OF h1 h2 h3] unfolding fv .
  have e: "ae_df example_agent = ae_example" by (simp add: example_agent_def)
  show ?thesis using t h3 by (simp add: e)
qed

text \<open>
  C3. When the target column of the parsed query is not a column of the dataset (it names
  no column, is absent, or is not a string), \<open>execute_query\<close> raises the \<open>ValueError\<close> of
  line 205, whose message carries the requested column and the list of the dataset's
  columns. (The specification calls this error \<open>UnknownColumnError\<close>.)
\<close>

theorem unknown_column_raises:
  assumes "\<forall>c. q ''target_column'' = Some (PStr c) \<longrightarrow> c \<notin> set (columns (ae_df self))"
  shows "execute_query upper self q
         = Inl (ValueError (py_str (get q ''target_column'')) (columns (ae_df self)))"
proof (cases "q ''target_column''")
  case None
  then show ?thesis by (simp add: execute_query_unfold get_def get_default_def)
next
  case (Some v)
  then have g: "get q ''target_column'' = v" by (rule get_Some)
  show ?thesis
  proof (cases v)
    case (PStr c)
    then have "c \<notin> set (columns (ae_df self))" using assms Some by simp
    then show ?thesis using g PStr by (simp add: execute_query_unfold)
  qed (simp_all add: execute_query_unfold g)
qed

theorem unknown_column_raises_witness:
  "execute_query ascii_upper example_agent
     [''target_column'' \<mapsto> PStr ''NOTACOLUMN'', ''filter_value'' \<mapsto> PStr ''x'',
      ''match_type'' \<mapsto> PStr ''exact'']
   = Inl (ValueError ''NOTACOLUMN'' [''USUBJID'', ''AETERM'', ''AESEV'', ''AESTDY''])"
  using unknown_column_raises
    [of "[''target_column'' \<mapsto> PStr ''NOTACOLUMN'', ''filter_value'' \<mapsto> PStr ''x'',
          ''match_type'' \<mapsto> PStr ''exact'']" example_agent ascii_upper]
  by (simp add: example_agent_def ae_example_def get_def get_default_def)

text \<open>
  C4. A column whose field is empty in every record makes \<open>execute_query\<close> raise
  \<open>AttributeError\<close>, under either match type: the missing values do make the execution
  fail here. (When it returns, no row with a missing target value is among the matches:
  lemma \<open>missing_never_matches\<close>.)
\<close>

theorem empty_column_raises:
  "execute_query upper no_severity_agent q_mild = Inl AttributeError
   \<and> execute_query upper no_severity_agent (q_mild(''match_type'' \<mapsto> PStr ''contains''))
     = Inl AttributeError"
  by (simp add: execute_query_unfold no_severity_agent_def ae_no_severity_def get_def
      get_default_def has_text_def is_Str_def mk_row_def q_mild_def)

text \<open>
  C5. In the response of \<open>ask\<close>, the sample is the first five rows of the filtered frame,
  which are rows of the dataset in its order, each as a record that pairs every column of
  the dataset with the row's value in it: never more than five, exactly five when five or
  more rows match, every matching row when fewer than five match, and the empty list when
  none matches.
\<close>

theorem sample_is_first_five:
  assumes "ask upper parse self qn = Inr resp"
  shows "\<exists>n ids fdf. execute_query upper self (parsed_query resp) = Inr (n, ids, fdf)
           \<and> (\<exists>P. rows fdf = filter P (rows (ae_df self)))
           \<and> sample_data (results resp)
               = map (\<lambda>r. map (\<lambda>c. (c, r c)) (columns (ae_df self))) (take 5 (rows fdf))
           \<and> length (sample_data (results resp)) \<le> 5
           \<and> (5 \<le> length (rows fdf) \<longrightarrow> length (sample_data (results resp)) = 5)
           \<and> (length (rows fdf) < 5 \<longrightarrow>
                sample_data (results resp)
                = map (\<lambda>r. map (\<lambda>c. (c, r c)) (columns (ae_df self))) (rows fdf))
           \<and> (rows fdf = [] \<longrightarrow> sample_data (results resp) = [])"
proof -
  obtain n ids fdf where e: "execute_query upper self (parsed_query resp) = Inr (n, ids, fdf)"
    and s: "sample_data (results resp)
             = (if len fdf > 0 then to_dict_records (head 5 fdf) else [])"
    using ask_Inr [OF assms] by blast
  have c: "columns fdf = columns (ae_df self)" using e by (rule execute_query_columns)
  have p: "\<exists>P. rows fdf = filter P (rows (ae_df self))" using e by (rule execute_query_rows)
  have s': "sample_data (results resp)
            = map (\<lambda>r. map (\<lambda>c. (c, r c)) (columns (ae_df self))) (take 5 (rows fdf))"
    using s c by (simp add: len_def head_def to_dict_records_def to_record_def)
  have "length (sample_data (results resp)) \<le> 5" using s' by simp
  moreover have "5 \<le> length (rows fdf) \<longrightarrow> length (sample_data (results resp)) = 5"
    using s' by simp
  moreover have "length (rows fdf) < 5 \<longrightarrow>
      sample_data (results resp)
      = map (\<lambda>r. map (\<lambda>c. (c, r c)) (columns (ae_df self))) (rows fdf)"
    using s' by simp
  moreover have "rows fdf = [] \<longrightarrow> sample_data (results resp) = []" using s' by simp
  ultimately show ?thesis using e p s' by blast
qed

theorem sample_is_first_five_witness:
  "ask ascii_upper (\<lambda>self qn. Inr q_all_subjects) example_agent ''Which subjects are in the data?''
     = Inr example_response
   \<and> sample_data (results example_response)
     = map (\<lambda>r. map (\<lambda>c. (c, r c)) [''USUBJID'', ''AETERM'', ''AESEV'', ''AESTDY''])
         (take 5 (rows ae_example))
   \<and> length (sample_data (results example_response)) = 5
   \<and> total_records (results example_response) = 6"
proof -
  have h: "ask ascii_upper (\<lambda>self qn. Inr q_all_subjects) example_agent
             ''Which subjects are in the data?'' = Inr example_response"
    by (simp add: ask_def example_response_def example_eval q_all_subjects_def len_def head_def
        to_dict_records_def to_record_def)
  obtain n ids fdf where
    e: "execute_query ascii_upper example_agent (parsed_query example_response)
        = Inr (n, ids, fdf)"
    and s: "sample_data (results example_response)
            = map (\<lambda>r. map (\<lambda>c. (c, r c)) (columns (ae_df example_agent))) (take 5 (rows fdf))"
    and f: "5 \<le> length (rows fdf) \<longrightarrow> length (sample_data (results example_response)) = 5"
    using sample_is_first_five [OF h] by blast
  have "execute_query ascii_upper example_agent (parsed_query example_response)
        = Inr (3, [Str ''S1'', Str ''S2'', Str ''S3''], ae_example)"
    by (simp add: example_response_def example_eval q_all_subjects_def)
  then have fdf: "fdf = ae_example" using e by simp
  have c: "columns (ae_df example_agent) = [''USUBJID'', ''AETERM'', ''AESEV'', ''AESTDY'']"
    by (simp add: example_agent_def ae_example_def)
  have "5 \<le> length (rows fdf)" using fdf by (simp add: ae_example_def)
  then have l: "length (sample_data (results example_response)) = 5" using f by simp
  have t: "total_records (results example_response) = 6" by (simp add: example_response_def)
  show ?thesis using h s l t by (simp only: fdf c simp_thms)
qed



text \<open>
  C7. The subject count is at most the number of matching rows, and the two are equal
  exactly when no subject identifier occurs in more than one matching row. (The number of
  matching rows is \<open>len(filtered_df)\<close>, which \<open>ask\<close> reports as \<open>total_records\<close>.)
\<close>

theorem subject_count_le_records:
  assumes "execute_query upper self q = Inr (n, ids, fdf)"
  shows "n \<le> len fdf
         \<and> (n = len fdf \<longleftrightarrow> (\<forall>s. length (filter (\<lambda>r. r ''USUBJID'' = s) (rows fdf)) \<le> 1))"
proof -
  let ?subj = "map (\<lambda>r. r ''USUBJID'') (rows fdf)"
  obtain c where "q ''target_column'' = Some (PStr c)"
    using execute_query_Inr_target [OF assms(1)] by blast
  then have g: "get q ''target_column'' = PStr c" by (rule get_Some)
  have i: "ids = unique ?subj" using execute_query_Inr(5) [OF assms(1) g] .
  have n: "n = length (unique_from [] ?subj)"
    using execute_query_Inr(6) [OF assms(1) g] i by (simp add: unique_def)
  have l: "len fdf = length ?subj" by (simp add: len_def)
  have cnt: "length (filter (\<lambda>r. r ''USUBJID'' = s) (rows fdf))
             = length (filter (\<lambda>x. x = s) ?subj)" for s
    by (simp add: filter_map comp_def)
  have "n \<le> len fdf" unfolding n l by (rule length_unique_from_le)
  moreover have "n = len fdf \<longleftrightarrow> distinct ?subj"
    unfolding n l using length_unique_from_eq [of "[]" ?subj] by simp
  ultimately show ?thesis by (simp only: cnt distinct_iff_count)
qed

theorem subject_count_le_records_witness:
  "execute_query ascii_upper example_agent q_severe
     = Inr (2, [Str ''S1'', Str ''S2''], ae_example\<lparr>rows := take 3 (drop 1 (rows ae_example))\<rparr>)
   \<and> 2 \<le> len (ae_example\<lparr>rows := take 3 (drop 1 (rows ae_example))\<rparr>)
   \<and> \<not> (\<forall>s. length (filter (\<lambda>r. r ''USUBJID'' = s) (take 3 (drop 1 (rows ae_example)))) \<le> 1)"
proof -
  have h: "execute_query ascii_upper example_agent q_severe
     = Inr (2, [Str ''S1'', Str ''S2''], ae_example\<lparr>rows := take 3 (drop 1 (rows ae_example))\<rparr>)"
    by (simp add: example_eval q_severe_def)
  have l: "len (ae_example\<lparr>rows := take 3 (drop 1 (rows ae_example))\<rparr>) = 3"
    by (simp add: len_def ae_example_def)
  show ?thesis using subject_count_le_records [OF h] h l by simp
qed



text \<open>
  C9. On the study-day column, which the file gives as numbers, \<open>execute_query\<close> with the
  number \<open>5\<close> as filter value raises \<open>AttributeError\<close>; it does so with the string \<open>5\<close>
  as well, so the failure is that of the \<open>.str\<close> accessor on the column and not of the
  filter value (which \<open>str\<close> does turn into a string: lemma \<open>filter_value_is_stringified\<close>).
\<close>

theorem numeric_column_raises:
  "get q_study_day ''filter_value'' = PInt 5
   \<and> in_columns (get q_study_day ''target_column'') (ae_df example_agent)
   \<and> execute_query upper example_agent q_study_day = Inl AttributeError
   \<and> execute_query upper example_agent (q_study_day(''filter_value'' \<mapsto> PStr ''5''))
     = Inl AttributeError"
  by (simp add: execute_query_unfold example_agent_def ae_example_def get_def
      get_default_def has_text_def is_Str_def mk_row_def q_study_day_def)



end
